theory Spec2Isabelle
  imports
    Main
    "HOL-Library.Word"
    "HOL-Library.Char_ord"
    "HOL-Library.List_Lexorder"
    "HOL-Library.Multiset"
    "HOL-Library.Sublist"
begin

section \<open>Default-value constructors of the Go code generator\<close>

text \<open>
  This theory embeds \<^verbatim>\<open>pkg/generator/constructor.go\<close>: the generator of
  \<^verbatim>\<open>New*\<close> constructor functions for struct types whose fields carry default
  values from the JSON schema. The functions \<^verbatim>\<open>hasDefaults\<close>, \<^verbatim>\<open>generate\<close>,
  \<^verbatim>\<open>formatDefaultValue\<close>, \<^verbatim>\<open>tryFormatSlice\<close> and \<^verbatim>\<open>formatSliceValue\<close>
  are translated from that file. What they call and what is declared elsewhere
  (the \<^verbatim>\<open>codegen\<close> package, helpers of the \<^verbatim>\<open>generator\<close> package, the libraries
  \<^verbatim>\<open>litter\<close>, \<^verbatim>\<open>duration\<close>, \<^verbatim>\<open>strings\<close>, \<^verbatim>\<open>time\<close>, \<^verbatim>\<open>fmt\<close>) is either a
  parameter, collected in the record \<open>deps\<close>, or a definition marked as modelled
  from the spec.
\<close>

subsection \<open>Dynamically typed default values\<close>

text \<open>
  A default value is a Go \<^verbatim>\<open>interface{}\<close> holding decoded JSON or YAML. The code
  inspects it only through \<^verbatim>\<open>!= nil\<close>, the type assertions \<^verbatim>\<open>.(string)\<close>,
  \<^verbatim>\<open>.(map[string]any)\<close>, \<^verbatim>\<open>.([]interface{})\<close>, and \<^verbatim>\<open>reflect.Kind\<close>.
  \<open>VSlice\<close> is a \<^verbatim>\<open>[]interface{}\<close>; \<open>VTypedSlice t\<close> is a slice of any other
  static type \<open>t\<close> (for example \<^verbatim>\<open>[]string\<close>), whose kind is also
  \<^verbatim>\<open>reflect.Slice\<close>. A finite float64 is a mantissa and a binary exponent.
  A \<^verbatim>\<open>map[string]any\<close> is an association list: the order of the list stands
  for the order in which one run of the program happens to iterate over the
  map, and a well-formed map has distinct keys.
\<close>

datatype go_value =
    VNil
  | VBool bool
  | VInt int
  | VFloat64 int int
  | VString string
  | VSlice "go_value list"
  | VTypedSlice string "go_value list"
  | VMap "(string \<times> go_value) list"

text \<open>The type assertion \<^verbatim>\<open>defaultValue.(map[string]any)\<close>.\<close>

fun asMap :: "go_value \<Rightarrow> (string \<times> go_value) list option" where
  "asMap (VMap dvm) = Some dvm"
| "asMap _ = None"

text \<open>The type assertion \<^verbatim>\<open>defaultValue.(string)\<close>.\<close>

fun asString :: "go_value \<Rightarrow> string option" where
  "asString (VString s) = Some s"
| "asString _ = None"

text \<open>The type assertion \<^verbatim>\<open>defaultValue.([]interface{})\<close>.\<close>

fun asInterfaceSlice :: "go_value \<Rightarrow> go_value list option" where
  "asInterfaceSlice (VSlice df) = Some df"
| "asInterfaceSlice _ = None"

text \<open>\<^verbatim>\<open>reflect.ValueOf(defaultValue).Kind() == reflect.Slice\<close>.\<close>

fun kindIsSlice :: "go_value \<Rightarrow> bool" where
  "kindIsSlice (VSlice _) = True"
| "kindIsSlice (VTypedSlice _ _) = True"
| "kindIsSlice _ = False"

text \<open>The dynamic type name that \<^verbatim>\<open>%T\<close> prints.\<close>

fun dynType :: "go_value \<Rightarrow> string" where
  "dynType VNil = ''<nil>''"
| "dynType (VBool _) = ''bool''"
| "dynType (VInt _) = ''int''"
| "dynType (VFloat64 _ _) = ''float64''"
| "dynType (VString _) = ''string''"
| "dynType (VSlice _) = ''[]interface {}''"
| "dynType (VTypedSlice t _) = t"
| "dynType (VMap _) = ''map[string]interface {}''"

text \<open>
  The map index expression \<^verbatim>\<open>dvm[k]\<close>: a missing key yields the zero value of
  \<^verbatim>\<open>any\<close>, which is nil.
\<close>

definition mapIndex :: "(string \<times> go_value) list \<Rightarrow> string \<Rightarrow> go_value" where
  "mapIndex dvm k = (case map_of dvm k of None \<Rightarrow> VNil | Some v \<Rightarrow> v)"

text \<open>
  Modelled from the spec: \<^verbatim>\<open>sortedKeys\<close> is a helper of the generator package
  that is not part of the file embedded here. The spec prescribes sorted-key
  iteration over key-value containers; Go compares strings bytewise, which is
  the lexicographic order on \<open>char list\<close>.
\<close>

definition sortedKeys :: "(string \<times> go_value) list \<Rightarrow> string list" where
  "sortedKeys dvm = sort (map fst dvm)"

subsection \<open>Target AST\<close>

text \<open>
  Modelled from the spec: the \<^verbatim>\<open>codegen\<close> package declares the target AST
  (\<^verbatim>\<open>Type\<close>, \<^verbatim>\<open>StructType\<close>, \<^verbatim>\<open>StructField\<close>, \<^verbatim>\<open>TypeDecl\<close>). The variants are
  those of the spec's data model. A \<open>NamedType\<close> is a handle on a declaration
  and carries what \<^verbatim>\<open>nt.Decl.GetName()\<close> returns. Of a struct field only the
  attributes read by the constructor generator are kept.
\<close>

datatype go_type =
    NamedType string
  | PrimitiveType string
  | ArrayType go_type
  | MapType go_type go_type
  | PointerType go_type
  | InterfaceType
  | DurationType
  | DateType
  | DateTimeType
  | TimeType
  | EmptyType
  | StructType "StructField list"
and StructField =
    StructField (field_Name: string) (field_Type: go_type) (field_DefaultValue: go_value)

record TypeDecl =
  decl_Name :: string
  decl_Type :: go_type

text \<open>The type assertions on \<^verbatim>\<open>codegen.Type\<close> made by the generator.\<close>

fun asNamedType :: "go_type \<Rightarrow> string option" where
  "asNamedType (NamedType n) = Some n"
| "asNamedType _ = None"

fun isDurationType :: "go_type \<Rightarrow> bool" where
  "isDurationType DurationType = True"
| "isDurationType _ = False"

fun asStructType :: "go_type \<Rightarrow> StructField list option" where
  "asStructType (StructType st) = Some st"
| "asStructType _ = None"

subsection \<open>Errors\<close>

text \<open>
  The sentinel errors named in the file, the two wrappers it builds with
  \<^verbatim>\<open>fmt.Errorf\<close>, and \<open>ErrExternal\<close> for an error returned by
  \<^verbatim>\<open>Type.Generate\<close>.
\<close>

datatype error =
    ErrDefaultDurationIsNotAString string
  | ErrDurationIsEmpty
  | ErrCannotConvertISO8601ToGoFormat
  | ErrCannotFindSlideToDump
  | ErrInvalidDefaultValue
  | ErrCannotDumpDefaultSlice error
  | ErrCannotFormatDefaultValue string error
  | ErrExternal string

subsection \<open>Emitter\<close>

text \<open>
  Modelled from the spec: \<^verbatim>\<open>codegen.Emitter\<close> is not part of the file embedded
  here. In the spec the Emitter renders source text and tracks the current
  indentation level and a max line width. The state is the text written so far,
  the max line width, whether the next write begins a line, and the indentation
  level; a line begins with one tab per level. The line width and the
  indentation are \<^verbatim>\<open>int32\<close>, as \<^verbatim>\<open>maxLineLen\<close> is in the file: 32-bit words
  read as two's complement by \<open>sint\<close>.
\<close>

type_synonym int32 = "32 word"

type_synonym int64 = "64 word"

record Emitter =
  sb :: string
  maxLineLength :: int32
  start :: bool
  indent :: int32

definition tabs :: "int32 \<Rightarrow> string" where
  "tabs n = replicate (nat (sint n)) (CHR 0x09)"

definition NewEmitter :: "int32 \<Rightarrow> Emitter" where
  "NewEmitter maxLineLen = \<lparr>sb = [], maxLineLength = maxLineLen, start = True, indent = 0\<rparr>"

definition String :: "Emitter \<Rightarrow> string" where
  "String e = sb e"

definition MaxLineLength :: "Emitter \<Rightarrow> int32" where
  "MaxLineLength e = maxLineLength e"

definition Indent :: "int32 \<Rightarrow> Emitter \<Rightarrow> Emitter" where
  "Indent n e = e\<lparr>indent := indent e + n\<rparr>"

definition checkIndent :: "Emitter \<Rightarrow> Emitter" where
  "checkIndent e = (if start e then e\<lparr>sb := sb e @ tabs (indent e), start := False\<rparr> else e)"

definition Printf :: "string \<Rightarrow> Emitter \<Rightarrow> Emitter" where
  "Printf s e = (let e1 = checkIndent e in e1\<lparr>sb := sb e1 @ s, start := False\<rparr>)"

definition Newline :: "Emitter \<Rightarrow> Emitter" where
  "Newline e = e\<lparr>sb := sb e @ [CHR 0x0A], start := True\<rparr>"

definition Printlnf :: "string \<Rightarrow> Emitter \<Rightarrow> Emitter" where
  "Printlnf s e = Newline (Printf s e)"

text \<open>\<^verbatim>\<open>strings.Split(s, "\n")\<close>: always at least one piece.\<close>

fun splitNewline :: "string \<Rightarrow> string list" where
  "splitNewline [] = [[]]"
| "splitNewline (c # cs) =
     (if c = CHR 0x0A then [] # splitNewline cs
      else (case splitNewline cs of l # ls \<Rightarrow> (c # l) # ls | [] \<Rightarrow> [[c]]))"

subsection \<open>What the file calls but does not define\<close>

text \<open>
  The remaining callees are parameters. \<open>'d\<close> is the parsed ISO 8601 duration
  of the \<^verbatim>\<open>duration\<close> library; a \<^verbatim>\<open>time.Duration\<close> is an \<^verbatim>\<open>int64\<close> count of
  nanoseconds.
  \<^item> \<open>additionalProperties\<close>: the generator package's constant naming the
    catch-all field;
  \<^item> \<open>upperFirst\<close>: the generator package's helper;
  \<^item> \<open>Sdump\<close>: \<^verbatim>\<open>litter.Sdump\<close>;
  \<^item> \<open>TrimSpace\<close>: \<^verbatim>\<open>strings.TrimSpace\<close>;
  \<^item> \<open>duration_Parse\<close>, \<open>ToTimeDuration\<close>: \<^verbatim>\<open>duration.Parse\<close> (\<open>None\<close> is a
    parse error) and the method of its result;
  \<^item> \<open>Duration_String\<close>: \<^verbatim>\<open>time.Duration.String\<close>;
  \<^item> \<open>Quote\<close>: the verb \<^verbatim>\<open>%q\<close> of \<^verbatim>\<open>fmt\<close>;
  \<^item> \<open>time_ParseDuration\<close>: \<^verbatim>\<open>time.ParseDuration\<close>, which the emitted
    constructor calls (\<open>None\<close> is an error);
  \<^item> \<open>WrapString\<close>: the word wrapping of comments to a width;
  \<^item> \<open>Generate\<close>: \<^verbatim>\<open>codegen.Type.Generate\<close>, rendering a type into an emitter.
\<close>

record 'd deps =
  additionalProperties :: string
  upperFirst :: "string \<Rightarrow> string"
  Sdump :: "go_value \<Rightarrow> string"
  TrimSpace :: "string \<Rightarrow> string"
  duration_Parse :: "string \<Rightarrow> 'd option"
  ToTimeDuration :: "'d \<Rightarrow> int64"
  Duration_String :: "int64 \<Rightarrow> string"
  Quote :: "string \<Rightarrow> string"
  time_ParseDuration :: "string \<Rightarrow> int64 option"
  WrapString :: "string \<Rightarrow> nat \<Rightarrow> string"
  Generate :: "go_type \<Rightarrow> Emitter \<Rightarrow> error option \<times> Emitter"

text \<open>
  Modelled from the spec: \<^verbatim>\<open>Emitter.Commentf\<close> is not part of the file embedded
  here. The Emitter is line-width aware: a non-empty comment is wrapped to the
  width left after the indentation and written as \<^verbatim>\<open>//\<close> lines.
\<close>

definition commentLimit :: "Emitter \<Rightarrow> nat" where
  "commentLimit e = nat (sint (maxLineLength e - indent e))"

definition Commentf :: "'d deps \<Rightarrow> string \<Rightarrow> Emitter \<Rightarrow> Emitter" where
  "Commentf D s e =
     (if s = [] then e
      else foldl (\<lambda>e' line. Printlnf (''// '' @ line) e') e
             (splitNewline (WrapString D s (commentLimit e))))"

subsection \<open>constructor.go\<close>

text \<open>
  \<^verbatim>\<open>hasDefaults\<close>: true if the struct type has any field with a default value.
  The receiver \<^verbatim>\<open>constructorGenerator\<close> is read only through its \<^verbatim>\<open>decl\<close>.
\<close>

definition hasDefaults :: "TypeDecl \<Rightarrow> bool" where
  "hasDefaults decl =
     (case asStructType (decl_Type decl) of
        None \<Rightarrow> False
      | Some st \<Rightarrow> list_ex (\<lambda>f. field_DefaultValue f \<noteq> VNil) st)"

text \<open>\<^verbatim>\<open>tryFormatSlice\<close>: \<open>None\<close> is the nil error.\<close>

definition tryFormatSlice :: "go_value \<Rightarrow> error option" where
  "tryFormatSlice defaultValue =
     (if \<not> kindIsSlice defaultValue then Some ErrCannotFindSlideToDump
      else case asInterfaceSlice defaultValue of
             None \<Rightarrow> Some ErrInvalidDefaultValue
           | Some _ \<Rightarrow> None)"

text \<open>
  \<^verbatim>\<open>formatSliceValue\<close>. The loop over the elements prints one line per element
  into the temporary emitter.
\<close>

definition printElements :: "'d deps \<Rightarrow> go_value list \<Rightarrow> Emitter \<Rightarrow> Emitter" where
  "printElements D df e = foldl (\<lambda>e' v. Printlnf (Sdump D v @ '','') e') e df"

definition formatSliceValue :: "'d deps \<Rightarrow> go_type \<Rightarrow> go_value \<Rightarrow> int32 \<Rightarrow> error + string" where
  "formatSliceValue D fieldType defaultValue maxLineLen =
     (case Generate D fieldType (NewEmitter maxLineLen) of
        (Some err, _) \<Rightarrow> Inl (ErrCannotDumpDefaultSlice err)
      | (None, tmpEmitter) \<Rightarrow>
          (case asInterfaceSlice defaultValue of
             None \<Rightarrow> Inl ErrInvalidDefaultValue
           | Some df \<Rightarrow>
               if length df = 0 then Inr (String tmpEmitter @ ''{}'')
               else Inr (String (Printf ''}'' (printElements D df (Printlnf ''{'' tmpEmitter))))))"

text \<open>
  \<^verbatim>\<open>formatDefaultValue\<close>. \<open>namedFields\<close> is the loop over the sorted keys of a
  default object; \<open>durationInitializer\<close> is the expression template of the
  duration branch, applied to the quoted Go duration string.
\<close>

definition namedFields :: "'d deps \<Rightarrow> (string \<times> go_value) list \<Rightarrow> string" where
  "namedFields D dvm =
     foldl (\<lambda>acc k. acc @ [CHR 0x0A] @ upperFirst D k @ '': '' @ Sdump D (mapIndex dvm k) @ '','')
       [] (sortedKeys dvm)"

definition durationInitializer :: "string \<Rightarrow> string" where
  "durationInitializer q =
     ''func() time.Duration { d, _ := time.ParseDuration('' @ q @ ''); return d }()''"

definition formatDefaultValue :: "'d deps \<Rightarrow> go_type \<Rightarrow> go_value \<Rightarrow> int32 \<Rightarrow> error + string" where
  "formatDefaultValue D fieldType defaultValue maxLineLen =
     (case (asNamedType fieldType, asMap defaultValue) of
        (Some nt, Some dvm) \<Rightarrow>
          (let nf = namedFields D dvm;
               nf' = (if nf \<noteq> [] then nf @ [CHR 0x0A] else nf)
           in Inr (nt @ ''{'' @ nf' @ ''}''))
      | _ \<Rightarrow>
          if isDurationType fieldType then
            (case asString defaultValue of
               None \<Rightarrow> Inl (ErrDefaultDurationIsNotAString (dynType defaultValue))
             | Some defaultDurationISO8601 \<Rightarrow>
                 if defaultDurationISO8601 = [] then Inl ErrDurationIsEmpty
                 else (case duration_Parse D defaultDurationISO8601 of
                         None \<Rightarrow> Inl ErrCannotConvertISO8601ToGoFormat
                       | Some d \<Rightarrow>
                           (let goDurationStr = Duration_String D (ToTimeDuration D d)
                            in Inr (durationInitializer (Quote D goDurationStr)))))
          else if tryFormatSlice defaultValue = None then
            formatSliceValue D fieldType defaultValue maxLineLen
          else Inr (TrimSpace D (Sdump D defaultValue)))"

text \<open>
  \<^verbatim>\<open>generate\<close>. \<open>generateFields\<close> is the loop over the struct's fields; it stops
  at the first default that cannot be formatted, leaving in the emitter what
  was written before. The emitter is updated in place in Go, so the result is
  the error (if any) together with the emitter.
\<close>

fun generateFields :: "'d deps \<Rightarrow> StructField list \<Rightarrow> Emitter \<Rightarrow> error option \<times> Emitter" where
  "generateFields D [] out = (None, out)"
| "generateFields D (f # fs) out =
     (if field_DefaultValue f \<noteq> VNil then
        (if field_Name f = additionalProperties D then generateFields D fs out
         else (case formatDefaultValue D (field_Type f) (field_DefaultValue f) (MaxLineLength out) of
                 Inl err \<Rightarrow> (Some (ErrCannotFormatDefaultValue (field_Name f) err), out)
               | Inr defaultStr \<Rightarrow>
                   generateFields D fs (Printlnf (field_Name f @ '': '' @ defaultStr @ '','') out)))
      else generateFields D fs out)"

definition constructorHeader :: "'d deps \<Rightarrow> string \<Rightarrow> Emitter \<Rightarrow> Emitter" where
  "constructorHeader D typeName out =
     Indent 1 (Printlnf (''return '' @ typeName @ ''{'')
       (Indent 1 (Printlnf (''func New'' @ typeName @ ''() '' @ typeName @ '' {'')
         (Commentf D (''New'' @ typeName @ '' creates a new '' @ typeName @ '' with default values.'') out))))"

definition constructorFooter :: "Emitter \<Rightarrow> Emitter" where
  "constructorFooter out = Printlnf ''}'' (Indent (- 1) (Printlnf ''}'' (Indent (- 1) out)))"

definition generate :: "'d deps \<Rightarrow> TypeDecl \<Rightarrow> Emitter \<Rightarrow> error option \<times> Emitter" where
  "generate D decl out =
     (case asStructType (decl_Type decl) of
        None \<Rightarrow> (None, out)
      | Some st \<Rightarrow>
          (case generateFields D st (constructorHeader D (decl_Name decl) out) of
             (Some err, out') \<Rightarrow> (Some err, out')
           | (None, out') \<Rightarrow> (None, constructorFooter out')))"

subsection \<open>Notions used to state the properties\<close>

text \<open>
  The fields that the loop of \<^verbatim>\<open>generate\<close> formats: a non-nil default, and not
  the catch-all field.
\<close>

definition initialized :: "'d deps \<Rightarrow> StructField \<Rightarrow> bool" where
  "initialized D f = (field_DefaultValue f \<noteq> VNil \<and> field_Name f \<noteq> additionalProperties D)"

text \<open>The default literal of a field, as \<^verbatim>\<open>generate\<close> asks for it.\<close>

definition defaultLiteral :: "'d deps \<Rightarrow> int32 \<Rightarrow> StructField \<Rightarrow> error + string" where
  "defaultLiteral D maxLineLen f =
     formatDefaultValue D (field_Type f) (field_DefaultValue f) maxLineLen"

text \<open>
  The text of one assignment in the body of a constructor: the line
  \<^verbatim>\<open>Name: literal,\<close> at indentation level \<open>lvl\<close>.
\<close>

definition assignmentLine :: "int32 \<Rightarrow> StructField \<Rightarrow> string \<Rightarrow> string" where
  "assignmentLine lvl f lit = tabs lvl @ field_Name f @ '': '' @ lit @ '','' @ [CHR 0x0A]"

text \<open>
  The text that opens a constructor for type \<open>X\<close> after its doc comment, and
  the text that closes it, at indentation level \<open>lvl\<close>.
\<close>

definition openingText :: "int32 \<Rightarrow> string \<Rightarrow> string" where
  "openingText lvl X =
     tabs lvl @ ''func New'' @ X @ ''() '' @ X @ '' {'' @ [CHR 0x0A] @
     tabs (lvl + 1) @ ''return '' @ X @ ''{'' @ [CHR 0x0A]"

definition closingText :: "int32 \<Rightarrow> string" where
  "closingText lvl = tabs (lvl + 1) @ ''}'' @ [CHR 0x0A] @ tabs lvl @ ''}'' @ [CHR 0x0A]"

definition docComment :: "string \<Rightarrow> string" where
  "docComment X = ''New'' @ X @ '' creates a new '' @ X @ '' with default values.''"

text \<open>
  The named constructor of type \<open>X\<close>: \<^verbatim>\<open>generate\<close> emits it as the function
  \<^verbatim>\<open>NewX\<close>. An expression that calls it contains this name.
\<close>

definition namedConstructor :: "string \<Rightarrow> string" where
  "namedConstructor X = ''New'' @ X"

text \<open>
  The text of one field of the composite literal built for a named type from
  the key \<open>k\<close> of a default object.
\<close>

definition namedField :: "'d deps \<Rightarrow> (string \<times> go_value) list \<Rightarrow> string \<Rightarrow> string" where
  "namedField D dvm k = [CHR 0x0A] @ upperFirst D k @ '': '' @ Sdump D (mapIndex dvm k) @ '',''"

text \<open>
  The value of the Go expression
  \<^verbatim>\<open>func() time.Duration { d, _ := time.ParseDuration(q); return d }()\<close>
  when \<open>q\<close> is the literal of the string \<open>s\<close>: the parsed duration, and the
  zero duration when \<^verbatim>\<open>time.ParseDuration\<close> fails, since the error is dropped.
\<close>

definition durationInitializerValue :: "'d deps \<Rightarrow> string \<Rightarrow> int64" where
  "durationInitializerValue D s = (case time_ParseDuration D s of Some d \<Rightarrow> d | None \<Rightarrow> 0)"

text \<open>
  Two default values are the same Go value when they differ at most in the
  order of the entries of the maps in them, that is, in the iteration order.
\<close>

inductive sameValue :: "go_value \<Rightarrow> go_value \<Rightarrow> bool" where
  same_refl: "sameValue v v"
| same_slice: "list_all2 sameValue xs ys \<Longrightarrow> sameValue (VSlice xs) (VSlice ys)"
| same_typed: "list_all2 sameValue xs ys \<Longrightarrow> sameValue (VTypedSlice t xs) (VTypedSlice t ys)"
| same_map:
    "distinct (map fst kvs) \<Longrightarrow> distinct (map fst kvs') \<Longrightarrow>
     fst ` set kvs = fst ` set kvs' \<Longrightarrow>
     (\<forall>k \<in> fst ` set kvs. sameValue (mapIndex kvs k) (mapIndex kvs' k)) \<Longrightarrow>
     sameValue (VMap kvs) (VMap kvs')"

subsection \<open>A sample instance of the parameters\<close>

text \<open>
  Simple stand-ins for the libraries, on which the definitions above can be
  evaluated: decimal numbers, strings in double quotes, maps dumped in key
  order, durations of whole seconds written \<^verbatim>\<open>PT<n>S\<close> in ISO 8601 and
  \<^verbatim>\<open><n>s\<close> in Go, types rendered in Go syntax.
\<close>

definition digitChar :: "nat \<Rightarrow> char" where
  "digitChar n = ''0123456789'' ! n"

fun showNat :: "nat \<Rightarrow> string" where
  "showNat n =
     (if n < 10 then [digitChar n] else showNat (n div 10) @ [digitChar (n mod 10)])"

definition showInt :: "int \<Rightarrow> string" where
  "showInt i = (if i < 0 then CHR ''-'' # showNat (nat (- i)) else showNat (nat i))"

fun readNat :: "nat \<Rightarrow> string \<Rightarrow> nat option" where
  "readNat acc [] = Some acc"
| "readNat acc (c # cs) =
     (if CHR ''0'' \<le> c \<and> c \<le> CHR ''9'' then readNat (10 * acc + (of_char c - 48)) cs
      else None)"

definition sample_upperFirst :: "string \<Rightarrow> string" where
  "sample_upperFirst s =
     (case s of
        [] \<Rightarrow> []
      | c # cs \<Rightarrow>
          (case map_of (zip ''abcdefghijklmnopqrstuvwxyz'' ''ABCDEFGHIJKLMNOPQRSTUVWXYZ'') c of
             Some C \<Rightarrow> C
           | None \<Rightarrow> c) # cs)"

fun sample_Sdump :: "go_value \<Rightarrow> string" where
  "sample_Sdump VNil = ''nil''"
| "sample_Sdump (VBool b) = (if b then ''true'' else ''false'')"
| "sample_Sdump (VInt i) = showInt i"
| "sample_Sdump (VFloat64 m e) = showInt m @ ''p'' @ showInt e"
| "sample_Sdump (VString s) = [CHR 0x22] @ s @ [CHR 0x22]"
| "sample_Sdump (VSlice xs) =
     ''[]interface {}{'' @ concat (map (\<lambda>x. sample_Sdump x @ '','') xs) @ ''}''"
| "sample_Sdump (VTypedSlice t xs) =
     t @ ''{'' @ concat (map (\<lambda>x. sample_Sdump x @ '','') xs) @ ''}''"
| "sample_Sdump (VMap kvs) =
     ''map[string]interface {}{'' @
     concat (map (\<lambda>kv. [CHR 0x22] @ fst kv @ [CHR 0x22] @ '': '' @ sample_Sdump (snd kv) @ '','')
       (sort_key fst kvs)) @ ''}''"

definition isSpace :: "char \<Rightarrow> bool" where
  "isSpace c = (c \<in> set [CHR 0x09, CHR 0x0A, CHR 0x0B, CHR 0x0C, CHR 0x0D, CHR 0x20])"

definition sample_TrimSpace :: "string \<Rightarrow> string" where
  "sample_TrimSpace s = rev (dropWhile isSpace (rev (dropWhile isSpace s)))"

definition sample_Parse :: "string \<Rightarrow> nat option" where
  "sample_Parse s =
     (if 3 < length s \<and> take 2 s = ''PT'' \<and> last s = CHR ''S''
      then readNat 0 (butlast (drop 2 s)) else None)"

definition sample_ToTimeDuration :: "nat \<Rightarrow> int64" where
  "sample_ToTimeDuration secs = of_nat (secs * 1000000000)"

definition sample_Duration_String :: "int64 \<Rightarrow> string" where
  "sample_Duration_String d = showInt (sint d div 1000000000) @ ''s''"

definition sample_Quote :: "string \<Rightarrow> string" where
  "sample_Quote s = [CHR 0x22] @ s @ [CHR 0x22]"

definition sample_time_ParseDuration :: "string \<Rightarrow> int64 option" where
  "sample_time_ParseDuration s =
     (if 1 < length s \<and> last s = CHR ''s''
      then map_option (\<lambda>n. of_nat (n * 1000000000)) (readNat 0 (butlast s)) else None)"

fun typeText :: "go_type \<Rightarrow> string" where
  "typeText (NamedType X) = X"
| "typeText (PrimitiveType p) = p"
| "typeText (ArrayType t) = ''[]'' @ typeText t"
| "typeText (MapType k v) = ''map['' @ typeText k @ '']'' @ typeText v"
| "typeText (PointerType t) = ''*'' @ typeText t"
| "typeText InterfaceType = ''interface{}''"
| "typeText DurationType = ''time.Duration''"
| "typeText DateType = ''types.SerializableDate''"
| "typeText DateTimeType = ''time.Time''"
| "typeText TimeType = ''types.SerializableTime''"
| "typeText EmptyType = ''interface{}''"
| "typeText (StructType st) = ''struct{}''"

definition sample_Generate :: "go_type \<Rightarrow> Emitter \<Rightarrow> error option \<times> Emitter" where
  "sample_Generate t e =
     (case t of
        StructType st \<Rightarrow> (Some (ErrExternal ''inline struct''), e)
      | _ \<Rightarrow> (None, Printf (typeText t) e))"

definition sampleDeps :: "nat deps" where
  "sampleDeps =
     \<lparr>additionalProperties = ''AdditionalProperties'',
      upperFirst = sample_upperFirst,
      Sdump = sample_Sdump,
      TrimSpace = sample_TrimSpace,
      duration_Parse = sample_Parse,
      ToTimeDuration = sample_ToTimeDuration,
      Duration_String = sample_Duration_String,
      Quote = sample_Quote,
      time_ParseDuration = sample_time_ParseDuration,
      WrapString = (\<lambda>s width. s),
      Generate = sample_Generate\<rparr>"

subsection \<open>Sample declarations\<close>

text \<open>
  An alias declaration; a struct declaration with defaults of every shape (a
  string, an integer, a field without default, a duration, a slice, a nested
  named type, and a catch-all field that carries a default); a struct whose only
  field is a catch-all field with a default; and a struct whose duration field
  has a default that is not ISO 8601.
\<close>

definition colorDecl :: TypeDecl where
  "colorDecl = \<lparr>decl_Name = ''Color'', decl_Type = PrimitiveType ''string''\<rparr>"

definition catchAllField :: StructField where
  "catchAllField =
     StructField ''AdditionalProperties'' (MapType (PrimitiveType ''string'') InterfaceType)
       (VMap [(''x'', VInt 1)])"

definition serverFields :: "StructField list" where
  "serverFields =
     [StructField ''Host'' (PrimitiveType ''string'') (VString ''localhost''),
      StructField ''Port'' (PrimitiveType ''int'') (VInt 8080),
      StructField ''Labels'' (MapType (PrimitiveType ''string'') (PrimitiveType ''string'')) VNil,
      StructField ''Timeout'' DurationType (VString ''PT30S''),
      StructField ''Tags'' (ArrayType (PrimitiveType ''string''))
        (VSlice [VString ''a'', VString ''b'']),
      StructField ''Limits'' (NamedType ''Limits'') (VMap [(''rate'', VInt 5), (''burst'', VInt 9)]),
      catchAllField]"

definition serverDecl :: TypeDecl where
  "serverDecl = \<lparr>decl_Name = ''Server'', decl_Type = StructType serverFields\<rparr>"

definition catchAllDecl :: TypeDecl where
  "catchAllDecl = \<lparr>decl_Name = ''Config'', decl_Type = StructType [catchAllField]\<rparr>"

definition retryField :: StructField where
  "retryField = StructField ''Retry'' DurationType (VString ''thirty seconds'')"

definition clientFields :: "StructField list" where
  "clientFields =
     [StructField ''Host'' (PrimitiveType ''string'') (VString ''localhost''),
      retryField,
      StructField ''Port'' (PrimitiveType ''int'') (VInt 8080)]"

definition clientDecl :: TypeDecl where
  "clientDecl = \<lparr>decl_Name = ''Client'', decl_Type = StructType clientFields\<rparr>"

section \<open>The emitter\<close>

text \<open>What each operation does to the four components of the emitter.\<close>

lemma Printlnf_fields:
  "sb (Printlnf s e) = sb e @ (if start e then tabs (indent e) else []) @ s @ [CHR 0x0A]"
  "start (Printlnf s e) = True"
  "indent (Printlnf s e) = indent e"
  "maxLineLength (Printlnf s e) = maxLineLength e"
  by (simp_all add: Printlnf_def Newline_def Printf_def checkIndent_def Let_def)

lemma Printf_fields:
  "sb (Printf s e) = sb e @ (if start e then tabs (indent e) else []) @ s"
  "start (Printf s e) = False"
  "indent (Printf s e) = indent e"
  "maxLineLength (Printf s e) = maxLineLength e"
  by (simp_all add: Printf_def checkIndent_def Let_def)

lemma Indent_fields:
  "sb (Indent n e) = sb e"
  "start (Indent n e) = start e"
  "indent (Indent n e) = indent e + n"
  "maxLineLength (Indent n e) = maxLineLength e"
  by (simp_all add: Indent_def)

lemma printLines_fields:
  "indent (foldl (\<lambda>e' l. Printlnf (g l) e') e ls) = indent e"
  "maxLineLength (foldl (\<lambda>e' l. Printlnf (g l) e') e ls) = maxLineLength e"
  "start (foldl (\<lambda>e' l. Printlnf (g l) e') e ls) = (if ls = [] then start e else True)"
  by (induction ls arbitrary: e) (simp_all add: Printlnf_fields)

lemma printLines_sb:
  "sb (foldl (\<lambda>e' l. Printlnf (g l) e') e ls) =
     sb e @ (if start e \<or> ls = [] then [] else g (hd ls) @ [CHR 0x0A]) @
     concat (map (\<lambda>l. tabs (indent e) @ g l @ [CHR 0x0A]) (if start e then ls else tl ls))"
proof (induction ls arbitrary: e)
  case Nil
  then show ?case by simp
next
  case (Cons l ls)
  show ?case
    by (simp add: Cons.IH Printlnf_fields)
qed

lemma splitNewline_nonempty: "splitNewline s \<noteq> []"
  by (induction s) (auto split: list.splits)

lemma Commentf_fields:
  "indent (Commentf D s e) = indent e"
  "maxLineLength (Commentf D s e) = maxLineLength e"
  "s \<noteq> [] \<Longrightarrow> start (Commentf D s e) = True"
  by (simp_all add: Commentf_def printLines_fields splitNewline_nonempty)

lemma splitNewline_single: "CHR 0x0A \<notin> set s \<Longrightarrow> splitNewline s = [s]"
  by (induction s) auto

lemma Commentf_plain:
  assumes "s \<noteq> []" "WrapString D s (commentLimit e) = s" "CHR 0x0A \<notin> set s"
  shows "String (Commentf D s e) =
           String e @ (if start e then tabs (indent e) else []) @ ''// '' @ s @ [CHR 0x0A]"
  using assms by (simp add: Commentf_def splitNewline_single Printlnf_fields String_def)

lemma constructorHeader_fields:
  "indent (constructorHeader D X out) = indent out + 2"
  "maxLineLength (constructorHeader D X out) = maxLineLength out"
  "start (constructorHeader D X out) = True"
  "sb (constructorHeader D X out) = sb (Commentf D (docComment X) out) @ openingText (indent out) X"
  by (simp_all add: constructorHeader_def Indent_fields Printlnf_fields Commentf_fields
      docComment_def openingText_def)

lemma constructorFooter_sb:
  "start e \<Longrightarrow> sb (constructorFooter e) = sb e @ closingText (indent e - 2)"
  by (simp add: constructorFooter_def Indent_fields Printlnf_fields closingText_def)

lemma generateFields_frame:
  "generateFields D fs out = (r, out') \<Longrightarrow>
     indent out' = indent out \<and> maxLineLength out' = maxLineLength out \<and> (start out \<longrightarrow> start out')"
proof (induction fs arbitrary: out)
  case Nil
  then show ?case by simp
next
  case (Cons f fs)
  then show ?case
    by (auto simp: Printlnf_fields MaxLineLength_def split: if_splits sum.splits)
qed

section \<open>The loop over the fields\<close>

text \<open>
  The loop of \<^verbatim>\<open>generate\<close> either formats every initialized field and writes
  the assignments in field order, or stops at the first field whose default
  cannot be formatted.
\<close>

lemma generateFields_ok:
  assumes "start out" and "generateFields D fs out = (None, out')"
  shows "\<exists>lits. map Inr lits = map (defaultLiteral D (maxLineLength out)) (filter (initialized D) fs) \<and>
           sb out' = sb out @ concat (map2 (assignmentLine (indent out)) (filter (initialized D) fs) lits)"
  using assms
proof (induction fs arbitrary: out)
  case Nil
  then show ?case by simp
next
  case (Cons f fs)
  show ?case
  proof (cases "initialized D f")
    case False
    then have "generateFields D fs out = (None, out')"
      using Cons.prems(2) by (auto simp: initialized_def split: if_splits)
    from Cons.IH[OF Cons.prems(1) this] False show ?thesis by simp
  next
    case True
    then obtain lit where lit: "defaultLiteral D (maxLineLength out) f = Inr lit"
      and rest: "generateFields D fs (Printlnf (field_Name f @ '': '' @ lit @ '','') out) = (None, out')"
      using Cons.prems(2)
      by (auto simp: initialized_def defaultLiteral_def MaxLineLength_def split: if_splits sum.splits)
    let ?o1 = "Printlnf (field_Name f @ '': '' @ lit @ '','') out"
    have "start ?o1" by (simp add: Printlnf_fields)
    from Cons.IH[OF this rest] obtain lits where
      l1: "map Inr lits = map (defaultLiteral D (maxLineLength out)) (filter (initialized D) fs)"
      and l2: "sb out' = sb ?o1 @ concat (map2 (assignmentLine (indent out)) (filter (initialized D) fs) lits)"
      by (auto simp: Printlnf_fields)
    have "map Inr (lit # lits) = map (defaultLiteral D (maxLineLength out)) (filter (initialized D) (f # fs))"
      using True lit l1 by simp
    moreover have "sb out' = sb out @ concat (map2 (assignmentLine (indent out)) (filter (initialized D) (f # fs)) (lit # lits))"
      using True l2 Cons.prems(1) by (simp add: Printlnf_fields assignmentLine_def)
    ultimately show ?thesis by blast
  qed
qed

lemma generateFields_err:
  assumes "start out" and "generateFields D fs out = (Some err, out')"
  shows "\<exists>pre g post e0 lits. fs = pre @ g # post \<and> initialized D g \<and>
           defaultLiteral D (maxLineLength out) g = Inl e0 \<and>
           err = ErrCannotFormatDefaultValue (field_Name g) e0 \<and>
           map Inr lits = map (defaultLiteral D (maxLineLength out)) (filter (initialized D) pre) \<and>
           sb out' = sb out @ concat (map2 (assignmentLine (indent out)) (filter (initialized D) pre) lits)"
  using assms
proof (induction fs arbitrary: out)
  case Nil
  then show ?case by simp
next
  case (Cons f fs)
  show ?case
  proof (cases "initialized D f")
    case False
    then have "generateFields D fs out = (Some err, out')"
      using Cons.prems(2) by (auto simp: initialized_def split: if_splits)
    from Cons.IH[OF Cons.prems(1) this] obtain pre g post e0 lits where
      h: "fs = pre @ g # post" "initialized D g" "defaultLiteral D (maxLineLength out) g = Inl e0"
         "err = ErrCannotFormatDefaultValue (field_Name g) e0"
         "map Inr lits = map (defaultLiteral D (maxLineLength out)) (filter (initialized D) pre)"
         "sb out' = sb out @ concat (map2 (assignmentLine (indent out)) (filter (initialized D) pre) lits)"
      by blast
    have "f # fs = (f # pre) @ g # post" using h(1) by simp
    moreover have "map Inr lits = map (defaultLiteral D (maxLineLength out)) (filter (initialized D) (f # pre))"
      using h(5) False by simp
    moreover have "sb out' = sb out @ concat (map2 (assignmentLine (indent out)) (filter (initialized D) (f # pre)) lits)"
      using h(6) False by simp
    ultimately show ?thesis using h(2,3,4) by blast
  next
    case True
    show ?thesis
    proof (cases "defaultLiteral D (maxLineLength out) f")
      case (Inl e0)
      then have "err = ErrCannotFormatDefaultValue (field_Name f) e0" "out' = out"
        using True Cons.prems(2)
        by (auto simp: initialized_def defaultLiteral_def MaxLineLength_def)
      moreover have "f # fs = [] @ f # fs" by simp
      moreover have "map Inr [] = map (defaultLiteral D (maxLineLength out)) (filter (initialized D) [])"
        by simp
      moreover have "sb out = sb out @ concat (map2 (assignmentLine (indent out)) (filter (initialized D) []) [])"
        by simp
      ultimately show ?thesis using True Inl by blast
    next
      case (Inr lit)
      let ?o1 = "Printlnf (field_Name f @ '': '' @ lit @ '','') out"
      have rest: "generateFields D fs ?o1 = (Some err, out')"
        using True Inr Cons.prems(2)
        by (auto simp: initialized_def defaultLiteral_def MaxLineLength_def)
      have "start ?o1" by (simp add: Printlnf_fields)
      from Cons.IH[OF this rest] obtain pre g post e0 lits where
        h: "fs = pre @ g # post" "initialized D g" "defaultLiteral D (maxLineLength out) g = Inl e0"
           "err = ErrCannotFormatDefaultValue (field_Name g) e0"
           "map Inr lits = map (defaultLiteral D (maxLineLength out)) (filter (initialized D) pre)"
           "sb out' = sb ?o1 @ concat (map2 (assignmentLine (indent out)) (filter (initialized D) pre) lits)"
        by (auto simp: Printlnf_fields)
      have "f # fs = (f # pre) @ g # post" using h(1) by simp
      moreover have "map Inr (lit # lits) = map (defaultLiteral D (maxLineLength out)) (filter (initialized D) (f # pre))"
        using h(5) True Inr by simp
      moreover have "sb out' = sb out @ concat (map2 (assignmentLine (indent out)) (filter (initialized D) (f # pre)) (lit # lits))"
        using h(6) True Cons.prems(1) by (simp add: Printlnf_fields assignmentLine_def)
      ultimately show ?thesis using h(2,3,4) by blast
    qed
  qed
qed

lemma generateFields_fails_iff:
  "fst (generateFields D fs out) = None \<longleftrightarrow>
     (\<forall>f \<in> set fs. initialized D f \<longrightarrow> \<not> isl (defaultLiteral D (maxLineLength out) f))"
proof (induction fs arbitrary: out)
  case Nil
  then show ?case by simp
next
  case (Cons f fs)
  show ?case
  proof (cases "initialized D f")
    case False
    then have "generateFields D (f # fs) out = generateFields D fs out"
      by (auto simp: initialized_def)
    then show ?thesis using False Cons.IH[of out] by simp
  next
    case True
    show ?thesis
    proof (cases "defaultLiteral D (maxLineLength out) f")
      case (Inl e0)
      then show ?thesis using True
        by (auto simp: initialized_def defaultLiteral_def MaxLineLength_def)
    next
      case (Inr lit)
      then have "generateFields D (f # fs) out =
                 generateFields D fs (Printlnf (field_Name f @ '': '' @ lit @ '','') out)"
        using True by (auto simp: initialized_def defaultLiteral_def MaxLineLength_def)
      then show ?thesis
        using Inr Cons.IH[of "Printlnf (field_Name f @ '': '' @ lit @ '','') out"]
        by (simp add: Printlnf_fields)
    qed
  qed
qed

section \<open>Properties\<close>

subsection \<open>Declarations that are not structs\<close>

text \<open>
  Claim C9. When the body of the type declaration is not a \<open>StructType\<close>,
  \<^verbatim>\<open>generate\<close> returns no error and leaves the emitter as it was; and
  \<^verbatim>\<open>hasDefaults\<close> is true exactly when the declaration is a \<open>StructType\<close>
  with at least one field whose default value is not nil.
\<close>

theorem non_struct_frame_and_hasDefaults:
  "((\<forall>st. decl_Type decl \<noteq> StructType st) \<longrightarrow> generate D decl out = (None, out)) \<and>
   (hasDefaults decl \<longleftrightarrow>
      (\<exists>st. decl_Type decl = StructType st \<and> (\<exists>f \<in> set st. field_DefaultValue f \<noteq> VNil)))"
  by (cases "decl_Type decl") (simp_all add: generate_def hasDefaults_def list_ex_iff)

theorem non_struct_frame_and_hasDefaults_witness:
  "generate sampleDeps colorDecl (NewEmitter 80) = (None, NewEmitter 80) \<and>
   \<not> hasDefaults colorDecl \<and> hasDefaults serverDecl"
  using non_struct_frame_and_hasDefaults [of colorDecl sampleDeps "NewEmitter 80"]
    non_struct_frame_and_hasDefaults [of serverDecl sampleDeps "NewEmitter 80"]
  by (simp add: colorDecl_def serverDecl_def serverFields_def)

subsection \<open>The slice branch\<close>

lemma tryFormatSlice_None_iff: "tryFormatSlice v = None \<longleftrightarrow> (\<exists>df. v = VSlice df)"
  by (cases v) (simp_all add: tryFormatSlice_def)

text \<open>
  Called on its own, \<^verbatim>\<open>formatSliceValue\<close> does reach its
  \<open>ErrInvalidDefaultValue\<close> branch: on a slice that is not a \<^verbatim>\<open>[]interface{}\<close>.
\<close>

lemma formatSliceValue_typed_slice:
  "fst (Generate D ft (NewEmitter n)) = None \<Longrightarrow>
   formatSliceValue D ft (VTypedSlice t xs) n = Inl ErrInvalidDefaultValue"
  by (cases "Generate D ft (NewEmitter n)") (simp add: formatSliceValue_def)

text \<open>
  Claim C10. The \<open>ErrInvalidDefaultValue\<close> branch of \<^verbatim>\<open>formatSliceValue\<close> is not
  reached from \<^verbatim>\<open>formatDefaultValue\<close>: once \<^verbatim>\<open>tryFormatSlice\<close> has returned nil
  the default value is a \<^verbatim>\<open>[]interface{}\<close>, the type assertion succeeds, and
  neither function returns that error.
\<close>

theorem invalid_default_branch_unreachable:
  "(tryFormatSlice dv = None \<longrightarrow>
      asInterfaceSlice dv \<noteq> None \<and> formatSliceValue D ft dv n \<noteq> Inl ErrInvalidDefaultValue) \<and>
   formatDefaultValue D ft dv n \<noteq> Inl ErrInvalidDefaultValue"
proof -
  have a: "asInterfaceSlice dv \<noteq> None \<and> formatSliceValue D ft dv n \<noteq> Inl ErrInvalidDefaultValue"
    if "tryFormatSlice dv = None"
    using that
    by (auto simp: tryFormatSlice_None_iff formatSliceValue_def split: prod.splits option.splits)
  have "formatDefaultValue D ft dv n \<noteq> Inl ErrInvalidDefaultValue"
    using a
    by (auto simp: formatDefaultValue_def Let_def split: prod.splits option.splits if_splits)
  with a show ?thesis by blast
qed

theorem invalid_default_branch_unreachable_witness:
  "tryFormatSlice (VSlice [VString ''a'', VString ''b'']) = None \<and>
   formatSliceValue sampleDeps (ArrayType (PrimitiveType ''string''))
     (VSlice [VString ''a'', VString ''b'']) 80 \<noteq> Inl ErrInvalidDefaultValue \<and>
   formatSliceValue sampleDeps (ArrayType (PrimitiveType ''string''))
     (VTypedSlice ''[]string'' [VString ''a'']) 80 = Inl ErrInvalidDefaultValue"
proof -
  have t: "tryFormatSlice (VSlice [VString ''a'', VString ''b'']) = None"
    by (simp add: tryFormatSlice_def)
  have g: "fst (Generate sampleDeps (ArrayType (PrimitiveType ''string'')) (NewEmitter 80)) = None"
    by (simp add: sampleDeps_def sample_Generate_def)
  show ?thesis
    using t formatSliceValue_typed_slice [OF g]
      invalid_default_branch_unreachable
        [of "VSlice [VString ''a'', VString ''b'']" sampleDeps "ArrayType (PrimitiveType ''string'')" 80]
    by simp
qed

end
